theory Spec2Isabelle
  imports
    Complex_Main
    "HOL-Library.Char_ord"
    "HOL-Library.List_Lexorder"
    "HOL-Library.Product_Lexorder"
    "HOL-Library.Multiset"
begin

section \<open>Data model of \<open>sku_analyzer.py\<close>\<close>

text \<open>
  The script works on a pandas DataFrame \<open>df\<close> with one row per sale. A row is a record
  with the columns the script reads. The column \<open>date\<close> is a timestamp (\<open>datetime64[ns]\<close>:
  nanoseconds since the epoch; the sample generator starts at \<open>datetime.now()\<close>, so the
  time of day is not zero). A cell of an uploaded file can be empty: an empty cell of a
  text column is read as a missing value (\<open>None\<close> here), and an empty date becomes \<open>NaT\<close>.
  The type of the \<open>date\<close> cells is a parameter: the date-range filter is stated for frames
  whose dates are all present (\<open>int\<close>), the aggregation for frames where a date may be
  missing (\<open>int option\<close>). The column \<open>quantity_sold\<close> is a 64-bit integer and the two
  money columns are \<open>float64\<close>; a money cell is modelled by the rational number it
  denotes, and sums and quotients of money are exact in the model. The three numeric
  cells of a row are present, and the frame has all seven columns.
\<close>

record 'd transaction =
  date :: 'd
  sku :: "string option"
  product_name :: "string option"
  category :: "string option"
  quantity_sold :: int
  unit_price :: rat
  total_revenue :: rat

section \<open>Date-range filter (lines 125 to 129)\<close>

text \<open>
  \<open>df['date'].dt.date\<close> drops the time of day: the calendar day of a timestamp, as the
  number of whole days since the epoch (floor division, also before 1970).
\<close>

definition dt_date :: "int \<Rightarrow> int" where
  "dt_date ts = ts div 86400000000000"

text \<open>\<open>df[mask]\<close>: the rows whose mask entry is true, in their order.\<close>

definition boolean_index :: "'a list \<Rightarrow> bool list \<Rightarrow> 'a list" where
  "boolean_index df msk = map fst (filter snd (zip df msk))"

text \<open>
  \<open>date_range\<close> is the tuple the date picker returns: no, one or two calendar days. Only
  a tuple of length two is unpacked into \<open>start_date, end_date\<close>; the two comparisons
  build boolean columns that are combined elementwise by \<open>&\<close>.
\<close>

definition df_filtered :: "int list \<Rightarrow> int transaction list \<Rightarrow> int transaction list" where
  "df_filtered date_range df =
     (if length date_range = 2 then
        (let start_date = date_range ! 0; end_date = date_range ! 1
         in boolean_index df
              (map2 (\<and>) (map (\<lambda>r. start_date \<le> dt_date (date r)) df)
                         (map (\<lambda>r. dt_date (date r) \<le> end_date) df)))
      else df)"

section \<open>SKU aggregation (\<open>calculate_sku_metrics\<close>, lines 133 to 149)\<close>

text \<open>
  Results of the \<open>/\<close> of two pandas columns are floating-point values. A division by
  zero does not raise there: it gives an infinity, and \<open>0 / 0\<close> gives NaN. The model
  keeps these three special values apart from the finite results.
\<close>

datatype fval = Fin rat | PosInf | NegInf | NaN

definition truediv :: "rat \<Rightarrow> rat \<Rightarrow> fval" where
  "truediv a b =
     (if b \<noteq> 0 then Fin (a / b)
      else if a = 0 then NaN
      else if 0 < a then PosInf
      else NegInf)"

definition is_finite :: "fval \<Rightarrow> bool" where
  "is_finite v = (case v of Fin _ \<Rightarrow> True | _ \<Rightarrow> False)"

text \<open>Sums of a 64-bit integer column wrap around.\<close>

definition int64 :: "int \<Rightarrow> int" where
  "int64 n = (n + 2 ^ 63) mod 2 ^ 64 - 2 ^ 63"

text \<open>The rows of the frame that \<open>calculate_sku_metrics\<close> returns.\<close>

record sku_metrics =
  m_sku :: string
  m_product_name :: string
  m_category :: string
  total_quantity :: int
  m_total_revenue :: rat
  avg_unit_price :: fval
  days_with_sales :: nat
  avg_daily_quantity :: fval
  avg_order_value :: fval

text \<open>
  \<open>df.groupby(['sku', 'product_name', 'category'])\<close>, with the defaults \<open>sort=True\<close> and
  \<open>dropna=True\<close>: a row with a missing cell in one of the three key columns has no key
  and belongs to no group. There is one group for each distinct key, the groups in
  ascending order of the key (tuples of strings, compared lexicographically), each group
  holding its rows in their order in \<open>df\<close>.
\<close>

definition group_key :: "'d transaction \<Rightarrow> (string \<times> string \<times> string) option" where
  "group_key r =
     (case sku r of
        None \<Rightarrow> None
      | Some s \<Rightarrow>
         (case product_name r of
            None \<Rightarrow> None
          | Some p \<Rightarrow>
             (case category r of
                None \<Rightarrow> None
              | Some c \<Rightarrow> Some (s, p, c))))"

definition groupby ::
  "'d transaction list \<Rightarrow> ((string \<times> string \<times> string) \<times> 'd transaction list) list" where
  "groupby df =
     map (\<lambda>k. (k, filter (\<lambda>r. group_key r = Some k) df))
       (sort (remdups (List.map_filter group_key df)))"

text \<open>
  The aggregations \<open>'mean'\<close> and \<open>'nunique'\<close> of a column of a group. \<open>'nunique'\<close> counts
  the distinct values that are present: a missing date is not counted.
\<close>

definition mean :: "rat list \<Rightarrow> fval" where
  "mean xs = truediv (sum_list xs) (of_nat (length xs))"

definition nunique :: "'a option list \<Rightarrow> nat" where
  "nunique xs = length (remdups (List.map_filter (\<lambda>x. x) xs))"

text \<open>
  One output row: the \<open>agg\<close> of the four columns, renamed by the assignment to
  \<open>sku_metrics.columns\<close>, and the two derived columns of lines 146 and 147. Neither
  division is guarded.
\<close>

definition agg ::
  "(string \<times> string \<times> string) \<times> int option transaction list \<Rightarrow> sku_metrics" where
  "agg kg =
     (let (k, g) = kg;
          tq = int64 (sum_list (map quantity_sold g));
          tr = sum_list (map total_revenue g);
          ds = nunique (map date g)
      in \<lparr> m_sku = fst k, m_product_name = fst (snd k), m_category = snd (snd k),
           total_quantity = tq,
           m_total_revenue = tr,
           avg_unit_price = mean (map unit_price g),
           days_with_sales = ds,
           avg_daily_quantity = truediv (of_int tq) (of_nat ds),
           avg_order_value = truediv tr (of_int tq) \<rparr>)"

definition calculate_sku_metrics :: "int option transaction list \<Rightarrow> sku_metrics list" where
  "calculate_sku_metrics df = map agg (groupby df)"

text \<open>The key of an output row, to compare it with the key of an input row.\<close>

definition metrics_key :: "sku_metrics \<Rightarrow> string \<times> string \<times> string" where
  "metrics_key m = (m_sku m, m_product_name m, m_category m)"

text \<open>
  The rows that have a key, the distinct keys and the distinct SKUs among them, and the
  condition that rows with the same SKU carry the same product name and category.
\<close>

definition has_key :: "'d transaction \<Rightarrow> bool" where
  "has_key r = (group_key r \<noteq> None)"

definition keys_present :: "'d transaction list \<Rightarrow> (string \<times> string \<times> string) list" where
  "keys_present df = remdups (List.map_filter group_key df)"

definition skus_present :: "'d transaction list \<Rightarrow> string list" where
  "skus_present df = remdups (map fst (keys_present df))"

definition key_stable :: "'d transaction list \<Rightarrow> bool" where
  "key_stable df =
     (\<forall>k\<in>set (keys_present df). \<forall>k'\<in>set (keys_present df). fst k = fst k' \<longrightarrow> k = k')"

text \<open>
  A list of \<open>float64\<close> values whose sums do not round, in whatever order they are added:
  all values are multiples of \<open>2\<^sup>-\<^sup>k\<close> and their absolute values add up to at most
  \<open>2\<^sup>5\<^sup>3\<^sup>-\<^sup>k\<close>. On such a column the exact sums of the model are the sums the code
  computes.
\<close>

definition on_grid :: "nat \<Rightarrow> rat \<Rightarrow> bool" where
  "on_grid k x = (snd (quotient_of (x * 2 ^ k)) = 1)"

definition float_exact :: "nat \<Rightarrow> rat list \<Rightarrow> bool" where
  "float_exact k xs =
     (k \<le> 1022 \<and> list_all (on_grid k) xs \<and> sum_list (map abs xs) * 2 ^ k \<le> 2 ^ 53)"

section \<open>Summary figures (lines 165 to 173)\<close>

text \<open>The overall average order value of the dashboard header guards its division.\<close>

definition overall_avg_order_value :: "'d transaction list \<Rightarrow> fval" where
  "overall_avg_order_value df =
     (let total_revenue' = sum_list (map total_revenue df);
          total_quantity' = int64 (sum_list (map quantity_sold df))
      in if 0 < total_quantity' then truediv total_revenue' (of_int total_quantity') else Fin 0)"

section \<open>Ranking (lines 154 to 159 and 180)\<close>

text \<open>
  The column that the \<open>if\<close>/\<open>elif\<close>/\<open>else\<close> chain on the selected metric sorts by: every
  label other than the first two takes the last branch.
\<close>

definition metric_value :: "string \<Rightarrow> sku_metrics \<Rightarrow> fval" where
  "metric_value metric m =
     (if metric = ''Total Revenue'' then Fin (m_total_revenue m)
      else if metric = ''Quantity Sold'' then Fin (of_int (total_quantity m))
      else avg_order_value m)"

text \<open>
  Comparison of floating-point values: NaN is neither below nor above anything, itself
  included.
\<close>

fun fle :: "fval \<Rightarrow> fval \<Rightarrow> bool" where
  "fle NaN _ = False"
| "fle _ NaN = False"
| "fle NegInf _ = True"
| "fle _ PosInf = True"
| "fle (Fin a) (Fin b) = (a \<le> b)"
| "fle _ _ = False"

definition isna :: "fval \<Rightarrow> bool" where
  "isna v = (v = NaN)"

text \<open>The position of a value that is not NaN on the extended number line.\<close>

fun fkey :: "fval \<Rightarrow> int \<times> rat" where
  "fkey NegInf = (- 1, 0)"
| "fkey (Fin a) = (0, a)"
| "fkey PosInf = (1, 0)"
| "fkey NaN = (2, 0)"

text \<open>
  \<open>sort_values(col, ascending=False)\<close> on one column, as pandas computes it: the rows
  whose value is NaN are set aside, the others are reversed, sorted ascending and
  reversed again, and the NaN rows are appended in their original order
  (\<open>na_position='last'\<close>). The sort is the library's default \<open>kind='quicksort'\<close>, which is
  not stable: rows with equal values come out in an order of the library's own. The
  parameter \<open>tie_order\<close> stands for that order: a rearrangement of the rows, applied
  before a sort that keeps equal rows in their order. Every sorted arrangement of the
  rows arises from some rearrangement, and a stable library sort is the identity.
\<close>

definition sort_values_desc :: "('a list \<Rightarrow> 'a list) \<Rightarrow> ('a \<Rightarrow> fval) \<Rightarrow> 'a list \<Rightarrow> 'a list" where
  "sort_values_desc tie_order col ms =
     rev (sort_key (\<lambda>m. fkey (col m)) (rev (tie_order (filter (\<lambda>m. \<not> isna (col m)) ms))))
       @ filter (\<lambda>m. isna (col m)) ms"

definition sku_metrics_sorted ::
  "(sku_metrics list \<Rightarrow> sku_metrics list) \<Rightarrow> string \<Rightarrow> sku_metrics list \<Rightarrow> sku_metrics list" where
  "sku_metrics_sorted tie_order metric ms = sort_values_desc tie_order (metric_value metric) ms"

text \<open>
  \<open>head(n)\<close> is the slice \<open>[:n]\<close>: the first \<open>n\<close> rows, and for a negative \<open>n\<close> all rows
  but the last \<open>-n\<close>.
\<close>

definition head :: "int \<Rightarrow> 'a list \<Rightarrow> 'a list" where
  "head n xs = (if 0 \<le> n then take (nat n) xs else take (length xs - nat (- n)) xs)"

definition top_skus ::
  "(sku_metrics list \<Rightarrow> sku_metrics list) \<Rightarrow> string \<Rightarrow> int \<Rightarrow> int option transaction list
     \<Rightarrow> sku_metrics list" where
  "top_skus tie_order metric top_n df =
     head top_n (sku_metrics_sorted tie_order metric (calculate_sku_metrics df))"

text \<open>
  The orders a ranking is measured against: descending in the selected metric, and
  ascending in the SKU among rows with the same value of the metric.
\<close>

definition desc_by :: "string \<Rightarrow> sku_metrics \<Rightarrow> sku_metrics \<Rightarrow> bool" where
  "desc_by metric a b = fle (metric_value metric b) (metric_value metric a)"


definition has_value :: "string \<Rightarrow> sku_metrics \<Rightarrow> bool" where
  "has_value metric m = (\<not> isna (metric_value metric m))"

section \<open>Reading an uploaded file (lines 100 to 102)\<close>

text \<open>
  The frame that \<open>pd.read_csv\<close> returns is a list of named columns. \<open>df[c]\<close> raises
  \<open>KeyError\<close> with the column's name when there is no such column; \<open>df[c] = v\<close> replaces
  the column or appends it. The conversion \<open>pd.to_datetime\<close> and the product of two
  columns belong to the library and are parameters of the model; either may raise.
\<close>

datatype error = KeyError string | OtherError string

type_synonym 'c frame = "(string \<times> 'c list) list"

definition getitem :: "'c frame \<Rightarrow> string \<Rightarrow> error + 'c list" where
  "getitem df c = (case map_of df c of None \<Rightarrow> Inl (KeyError c) | Some v \<Rightarrow> Inr v)"

definition setitem :: "'c frame \<Rightarrow> string \<Rightarrow> 'c list \<Rightarrow> 'c frame" where
  "setitem df c v =
     (if c \<in> set (map fst df) then map (\<lambda>(n, w). (n, if n = c then v else w)) df
      else df @ [(c, v)])"

definition uploaded_file_handling ::
  "('c list \<Rightarrow> error + 'c list) \<Rightarrow> ('c list \<Rightarrow> 'c list \<Rightarrow> error + 'c list) \<Rightarrow> 'c frame \<Rightarrow> error + 'c frame" where
  "uploaded_file_handling to_datetime mul df =
     (case getitem df ''date'' of
        Inl e \<Rightarrow> Inl e
      | Inr d \<Rightarrow>
         (case to_datetime d of
            Inl e \<Rightarrow> Inl e
          | Inr d' \<Rightarrow>
             (let df1 = setitem df ''date'' d' in
              (case getitem df1 ''quantity_sold'' of
                 Inl e \<Rightarrow> Inl e
               | Inr q \<Rightarrow>
                  (case getitem df1 ''unit_price'' of
                     Inl e \<Rightarrow> Inl e
                   | Inr p \<Rightarrow>
                      (case mul q p of
                         Inl e \<Rightarrow> Inl e
                       | Inr r \<Rightarrow> Inr (setitem df1 ''total_revenue'' r)))))))"

text \<open>Whether an error names a column.\<close>

definition names_column :: "error \<Rightarrow> string \<Rightarrow> bool" where
  "names_column e c = (case e of KeyError k \<Rightarrow> k = c | OtherError _ \<Rightarrow> False)"

text \<open>
  \<open>groupby\<close> looks its three key columns up in the frame and raises \<open>KeyError\<close> for the
  first one that the frame does not have (an uploaded file need not have a \<open>category\<close>
  column). The records above are the rows of a frame that has the three columns.
\<close>

definition key_columns :: "string list" where
  "key_columns = [''sku'', ''product_name'', ''category'']"

definition calculate_sku_metrics_frame ::
  "string list \<Rightarrow> int option transaction list \<Rightarrow> error + sku_metrics list" where
  "calculate_sku_metrics_frame columns df =
     (case filter (\<lambda>c. c \<notin> set columns) key_columns of
        [] \<Rightarrow> Inr (calculate_sku_metrics df)
      | c # _ \<Rightarrow> Inl (KeyError c))"

section \<open>Sample inputs\<close>

text \<open>
  The example of the specification: two sales of A and one of B on one day (day 20000,
  at noon), and the same SKU sold under two product names.
\<close>

definition noon :: int where
  "noon = 20000 * 86400000000000 + 43200000000000"

definition sale :: "'d \<Rightarrow> string \<Rightarrow> string \<Rightarrow> string \<Rightarrow> int \<Rightarrow> rat \<Rightarrow> 'd transaction" where
  "sale d s p c q u =
     \<lparr> date = d, sku = Some s, product_name = Some p, category = Some c,
       quantity_sold = q, unit_price = u, total_revenue = of_int q * u \<rparr>"

definition df_example :: "int option transaction list" where
  "df_example =
     [sale (Some noon) ''A'' ''Apple'' ''Fruit'' 10 2,
      sale (Some noon) ''A'' ''Apple'' ''Fruit'' 5 2,
      sale (Some noon) ''B'' ''Bread'' ''Bakery'' 1 100]"

definition df_renamed :: "int option transaction list" where
  "df_renamed =
     [sale (Some noon) ''A'' ''Apple'' ''Fruit'' 10 2,
      sale (Some noon) ''A'' ''Apples'' ''Fruit'' 5 2]"

text \<open>A file with one row whose quantity is zero, and the example followed by that row.\<close>

definition df_zero :: "int option transaction list" where
  "df_zero = [sale (Some noon) ''Z'' ''Zero'' ''Fruit'' 0 5]"

definition df_with_zero :: "int option transaction list" where
  "df_with_zero = df_example @ df_zero"

text \<open>
  A file in which the category cell of the sale of B is empty, a file whose only row has
  an empty date cell, a file with sales on two days, and a file with two SKUs of equal
  revenue.
\<close>

definition df_no_category :: "int option transaction list" where
  "df_no_category =
     [sale (Some noon) ''A'' ''Apple'' ''Fruit'' 3 2,
      (sale (Some noon) ''B'' ''Bread'' ''Bakery'' 1 100) \<lparr> category := None \<rparr>]"

definition df_no_date :: "int option transaction list" where
  "df_no_date = [sale None ''A'' ''Apple'' ''Fruit'' 3 2]"

definition df_two_days :: "int option transaction list" where
  "df_two_days =
     [sale (Some noon) ''A'' ''Apple'' ''Fruit'' 1 2,
      sale (Some (noon + 86400000000000)) ''A'' ''Apple'' ''Fruit'' 2 2,
      sale (Some noon) ''B'' ''Bread'' ''Bakery'' 3 100,
      sale None ''B'' ''Bread'' ''Bakery'' 4 100]"


text \<open>
  Sales at the last nanosecond of day 19999, at the first nanosecond and at noon of day
  20000, and at the first nanosecond of day 20001.
\<close>

definition df_days :: "int transaction list" where
  "df_days =
     [sale 1727999999999999999 ''A'' ''Apple'' ''Fruit'' 1 2,
      sale 1728000000000000000 ''A'' ''Apple'' ''Fruit'' 2 2,
      sale noon ''B'' ''Bread'' ''Bakery'' 3 100,
      sale 1728086400000000000 ''B'' ''Bread'' ''Bakery'' 4 100]"

text \<open>
  Two uploaded files without the column \<open>unit_price\<close>, their cells kept as text: the
  second has no \<open>date\<close> column either. For them the two library operations are taken
  to succeed.
\<close>

definition csv_no_price :: "string frame" where
  "csv_no_price =
     [(''date'', [''2024-10-04'']), (''sku'', [''A'']), (''product_name'', [''Apple'']),
      (''quantity_sold'', [''3''])]"

definition csv_no_date :: "string frame" where
  "csv_no_date = [(''sku'', [''A'']), (''quantity_sold'', [''3''])]"

definition to_datetime_ok :: "string list \<Rightarrow> error + string list" where
  "to_datetime_ok d = Inr d"

definition mul_ok :: "string list \<Rightarrow> string list \<Rightarrow> error + string list" where
  "mul_ok q p = Inr q"

section \<open>Properties of the date-range filter\<close>

lemma boolean_index_map2:
  "boolean_index xs (map2 (\<and>) (map P xs) (map Q xs)) = filter (\<lambda>x. P x \<and> Q x) xs"
  by (induction xs) (simp_all add: boolean_index_def)

lemma df_filtered_pair:
  "df_filtered [s, e] df = filter (\<lambda>r. s \<le> dt_date (date r) \<and> dt_date (date r) \<le> e) df"
  by (simp add: df_filtered_def boolean_index_map2)

lemma df_filtered_other: "length date_range \<noteq> 2 \<Longrightarrow> df_filtered date_range df = df"
  by (simp add: df_filtered_def)

lemma length_two_cases: "length xs = 2 \<Longrightarrow> \<exists>a b. xs = [a, b]"
  by (cases xs; cases "tl xs") auto

lemma df_filtered_reversed: "e < s \<Longrightarrow> df_filtered [s, e] df = []"
  by (simp add: df_filtered_pair)

text \<open>
  C7. For a pair \<open>start_date \<le> end_date\<close> the filter returns exactly the rows whose
  calendar day \<open>d\<close> satisfies \<open>start_date \<le> d \<le> end_date\<close>, both endpoints included, in
  their order and with their multiplicity.
\<close>

theorem df_filtered_inclusive:
  assumes "s \<le> e"
  shows "df_filtered [s, e] df
           = filter (\<lambda>r. s \<le> dt_date (date r) \<and> dt_date (date r) \<le> e) df"
proof -
  have "df_filtered [s, e] df
          = boolean_index df
              (map2 (\<and>) (map (\<lambda>r. s \<le> dt_date (date r)) df)
                         (map (\<lambda>r. dt_date (date r) \<le> e) df))"
    by (simp add: df_filtered_def)
  then show ?thesis
    by (simp only: boolean_index_map2)
qed

text \<open>
  On the four sales around day 20000, the range from day 20000 to day 20000 keeps the sale
  at midnight and the sale at noon of that day, and neither neighbour.
\<close>

theorem df_filtered_inclusive_witness:
  "(20000::int) \<le> 20000
   \<and> map quantity_sold (df_filtered [20000, 20000] df_days) = [2, 3]"
  using df_filtered_inclusive [of 20000 20000 df_days]
  by (simp add: df_days_def sale_def noon_def dt_date_def)

text \<open>
  C9. Filtering is idempotent: filtering an already filtered frame by the same range
  changes nothing. This holds for every tuple the date picker can return, the well-formed
  pairs included.
\<close>

theorem df_filtered_idempotent:
  "df_filtered date_range (df_filtered date_range df) = df_filtered date_range df"
proof (cases "length date_range = 2")
  case True
  then obtain s e where "date_range = [s, e]"
    using length_two_cases by blast
  then show ?thesis
    by (simp add: df_filtered_pair)
next
  case False
  then show ?thesis
    by (simp add: df_filtered_other)
qed

text \<open>
  C5, as stated, fails: a range with \<open>start_date > end_date\<close> has length two, so it is
  applied as it is and keeps no row. From day 20001 to day 20000 the four sales are all
  dropped.
\<close>

theorem reversed_range_counterexample:
  "(20000::int) < 20001 \<and> df_days \<noteq> [] \<and> df_filtered [20001, 20000] df_days = []"
  by (simp add: df_days_def df_filtered_pair sale_def dt_date_def noon_def)

text \<open>
  C5, amended. A range that does not have exactly two endpoints (one endpoint only, or
  none) leaves the frame unfiltered; a range with \<open>start_date > end_date\<close> gives the empty
  frame. Neither raises.
\<close>

theorem df_filtered_malformed:
  "(length date_range \<noteq> 2 \<longrightarrow> df_filtered date_range df = df)
   \<and> (e < s \<longrightarrow> df_filtered [s, e] df = [])"
  by (simp add: df_filtered_other df_filtered_reversed)

theorem df_filtered_malformed_witness:
  "length [20000::int] \<noteq> 2 \<and> df_filtered [20000] df_days = df_days
   \<and> (20000::int) < 20001 \<and> df_filtered [20001, 20000] df_days = []"
  using df_filtered_malformed [of "[20000]" df_days 20000 20001]
  by simp

section \<open>Properties of the aggregation\<close>

lemma group_key_has_key: "group_key r = Some k \<Longrightarrow> has_key r"
  by (simp add: has_key_def)

lemma set_map_filter_group_key:
  "set (List.map_filter group_key df) = {k. \<exists>r\<in>set df. group_key r = Some k}"
  by (induction df) (auto simp: List.map_filter_simps split: option.splits)

lemma set_keys_present: "set (keys_present df) = {k. \<exists>r\<in>set df. group_key r = Some k}"
  by (simp add: keys_present_def set_map_filter_group_key)

lemma sum_list_delta:
  fixes b :: "'b::comm_monoid_add"
  assumes "distinct ks" and "a \<in> set ks"
  shows "(\<Sum>k\<leftarrow>ks. if a = k then b else 0) = b"
proof -
  have "(\<Sum>k\<leftarrow>ks. if a = k then b else 0) = (\<Sum>k\<in>set ks. if a = k then b else 0)"
    using assms(1) by (rule sum_list_distinct_conv_sum_set)
  also have "\<dots> = b"
    using assms(2) by simp
  finally show ?thesis .
qed

text \<open>
  Summing a column group by group gives the sum of the column over the rows that have a
  key, when every key that occurs is among the distinct keys \<open>ks\<close>.
\<close>

lemma sum_list_groups:
  fixes f :: "'a \<Rightarrow> 'b::comm_monoid_add"
  assumes "distinct ks" and "\<forall>x\<in>set xs. \<forall>k. key x = Some k \<longrightarrow> k \<in> set ks"
  shows "(\<Sum>k\<leftarrow>ks. sum_list (map f (filter (\<lambda>r. key r = Some k) xs)))
           = sum_list (map f (filter (\<lambda>r. key r \<noteq> None) xs))"
  using assms(2)
proof (induction xs)
  case Nil
  then show ?case by simp
next
  case (Cons x xs)
  have ih: "(\<Sum>k\<leftarrow>ks. sum_list (map f (filter (\<lambda>r. key r = Some k) xs)))
              = sum_list (map f (filter (\<lambda>r. key r \<noteq> None) xs))"
    using Cons.IH Cons.prems by simp
  show ?case
  proof (cases "key x")
    case None
    then show ?thesis
      by (simp add: ih)
  next
    case (Some k0)
    then have mem: "k0 \<in> set ks"
      using Cons.prems by simp
    have "(\<Sum>k\<leftarrow>ks. sum_list (map f (filter (\<lambda>r. key r = Some k) (x # xs))))
        = (\<Sum>k\<leftarrow>ks. (if k0 = k then f x else 0)
                       + sum_list (map f (filter (\<lambda>r. key r = Some k) xs)))"
      by (rule arg_cong [where f = sum_list], rule map_cong) (auto simp: Some)
    also have "\<dots> = (\<Sum>k\<leftarrow>ks. if k0 = k then f x else 0)
                    + (\<Sum>k\<leftarrow>ks. sum_list (map f (filter (\<lambda>r. key r = Some k) xs)))"
      by (rule sum_list_addf)
    also have "\<dots> = f x + sum_list (map f (filter (\<lambda>r. key r \<noteq> None) xs))"
      by (simp only: ih sum_list_delta [OF assms(1) mem])
    finally show ?thesis
      by (simp add: Some)
  qed
qed

lemma agg_simps:
  "m_sku (agg (k, g)) = fst k"
  "m_product_name (agg (k, g)) = fst (snd k)"
  "m_category (agg (k, g)) = snd (snd k)"
  "total_quantity (agg (k, g)) = int64 (sum_list (map quantity_sold g))"
  "m_total_revenue (agg (k, g)) = sum_list (map total_revenue g)"
  "days_with_sales (agg (k, g)) = nunique (map date g)"
  "avg_daily_quantity (agg (k, g))
     = truediv (of_int (int64 (sum_list (map quantity_sold g)))) (of_nat (nunique (map date g)))"
  "avg_order_value (agg (k, g))
     = truediv (sum_list (map total_revenue g)) (of_int (int64 (sum_list (map quantity_sold g))))"
  by (simp_all add: agg_def Let_def)

lemma metrics_key_agg: "metrics_key (agg (k, g)) = k"
  by (simp add: metrics_key_def agg_simps)

lemma keys_calculate_sku_metrics:
  "map metrics_key (calculate_sku_metrics df) = sort (keys_present df)"
  by (simp add: calculate_sku_metrics_def groupby_def keys_present_def comp_def metrics_key_agg)

lemma revenue_calculate_sku_metrics:
  "map m_total_revenue (calculate_sku_metrics df)
     = map (\<lambda>k. sum_list (map total_revenue (filter (\<lambda>r. group_key r = Some k) df)))
         (sort (keys_present df))"
  by (simp add: calculate_sku_metrics_def groupby_def keys_present_def comp_def agg_simps)

lemma length_calculate_sku_metrics:
  "length (calculate_sku_metrics df) = length (keys_present df)"
  by (simp add: calculate_sku_metrics_def groupby_def keys_present_def)

lemma in_calculate_sku_metrics:
  assumes "m \<in> set (calculate_sku_metrics df)"
  obtains k where "k \<in> set (keys_present df)"
    and "m = agg (k, filter (\<lambda>r. group_key r = Some k) df)"
  using assms by (auto simp: calculate_sku_metrics_def groupby_def keys_present_def)

text \<open>Rows without a key have no part in the result.\<close>

lemma groupby_has_key: "groupby (filter has_key df) = groupby df"
proof -
  have "List.map_filter group_key (filter has_key df) = List.map_filter group_key df"
    by (induction df) (auto simp: List.map_filter_simps has_key_def split: option.splits)
  moreover have "filter (\<lambda>r. group_key r = Some k) (filter has_key df)
                   = filter (\<lambda>r. group_key r = Some k) df" for k
  proof -
    have "(has_key r \<and> group_key r = Some k) = (group_key r = Some k)" for r :: "'a transaction"
      by (cases "group_key r") (simp_all add: has_key_def)
    then show ?thesis
      by simp
  qed
  ultimately show ?thesis
    by (simp add: groupby_def)
qed

lemma calculate_sku_metrics_has_key:
  "calculate_sku_metrics (filter has_key df) = calculate_sku_metrics df"
  by (simp add: calculate_sku_metrics_def groupby_has_key)

lemma nunique_pos_iff: "1 \<le> nunique xs \<longleftrightarrow> (\<exists>x\<in>set xs. x \<noteq> None)"
proof -
  have "List.map_filter (\<lambda>x. x) xs \<noteq> [] \<longleftrightarrow> (\<exists>x\<in>set xs. x \<noteq> None)"
    by (induction xs) (auto simp: List.map_filter_simps split: option.splits)
  then show ?thesis
    by (simp add: nunique_def Suc_le_eq)
qed

lemma days_with_sales_pos_iff:
  assumes "m \<in> set (calculate_sku_metrics df)"
  shows "1 \<le> days_with_sales m
           \<longleftrightarrow> (\<exists>r\<in>set df. group_key r = Some (metrics_key m) \<and> date r \<noteq> None)"
proof -
  from assms obtain k where m: "m = agg (k, filter (\<lambda>r. group_key r = Some k) df)"
    by (rule in_calculate_sku_metrics)
  have "1 \<le> days_with_sales m
          \<longleftrightarrow> (\<exists>d\<in>set (map date (filter (\<lambda>r. group_key r = Some k) df)). d \<noteq> None)"
    by (simp only: m agg_simps nunique_pos_iff)
  also have "\<dots> \<longleftrightarrow> (\<exists>r\<in>set df. group_key r = Some k \<and> date r \<noteq> None)"
    by auto
  finally show ?thesis
    by (simp add: m metrics_key_agg)
qed

lemma avg_daily_quantity_eq:
  "m \<in> set (calculate_sku_metrics df) \<Longrightarrow>
     avg_daily_quantity m = truediv (of_int (total_quantity m)) (of_nat (days_with_sales m))"
  by (erule in_calculate_sku_metrics) (simp add: agg_simps)

lemma avg_order_value_eq:
  "m \<in> set (calculate_sku_metrics df) \<Longrightarrow>
     avg_order_value m = truediv (m_total_revenue m) (of_int (total_quantity m))"
  by (erule in_calculate_sku_metrics) (simp add: agg_simps)

lemma frame_without_key_column:
  "calculate_sku_metrics_frame [''date'', ''sku'', ''product_name'', ''quantity_sold'',
      ''unit_price'', ''total_revenue''] df = Inl (KeyError ''category'')"
  by (simp add: calculate_sku_metrics_frame_def key_columns_def)

lemma frame_with_key_columns:
  "set key_columns \<subseteq> set columns \<Longrightarrow>
     calculate_sku_metrics_frame columns df = Inr (calculate_sku_metrics df)"
proof -
  assume "set key_columns \<subseteq> set columns"
  then have "filter (\<lambda>c. c \<notin> set columns) key_columns = []"
    by (auto simp: filter_empty_conv)
  then show ?thesis
    by (simp add: calculate_sku_metrics_frame_def)
qed

text \<open>
  C1, as stated, fails: the row of B has an empty category cell, so it is in no group,
  and its revenue of 100 is in the sum of the input column but in no output row.
\<close>

theorem revenue_lost_counterexample:
  "df_no_category \<noteq> []
   \<and> sum_list (map m_total_revenue (calculate_sku_metrics df_no_category)) = 6
   \<and> sum_list (map total_revenue df_no_category) = 106"
proof (intro conjI)
  show "df_no_category \<noteq> []"
    by (simp add: df_no_category_def)
  show "sum_list (map m_total_revenue (calculate_sku_metrics df_no_category)) = 6"
    by code_simp
  show "sum_list (map total_revenue df_no_category) = 106"
    by (simp add: df_no_category_def sale_def)
qed

text \<open>
  C1, amended. For every non-empty frame whose revenue column adds up without rounding,
  the total revenues of the rows of \<open>calculate_sku_metrics\<close> add up to the sum of the
  \<open>total_revenue\<close> column over the input rows whose \<open>sku\<close>, \<open>product_name\<close> and \<open>category\<close>
  cells are all present. The rows with a missing key cell are left out.
\<close>

theorem revenue_conserved:
  assumes "df \<noteq> []" and "float_exact k (map total_revenue df)"
  shows "sum_list (map m_total_revenue (calculate_sku_metrics df))
           = sum_list (map total_revenue (filter has_key df))"
proof -
  have "(\<Sum>k\<leftarrow>sort (keys_present df).
            sum_list (map total_revenue (filter (\<lambda>r. group_key r = Some k) df)))
          = sum_list (map total_revenue (filter (\<lambda>r. group_key r \<noteq> None) df))"
    by (rule sum_list_groups) (auto simp: keys_present_def set_map_filter_group_key)
  moreover have "filter has_key df = filter (\<lambda>r. group_key r \<noteq> None) df"
    by (rule filter_cong) (simp_all add: has_key_def)
  ultimately show ?thesis
    by (simp only: revenue_calculate_sku_metrics list.map_comp comp_def)
qed

theorem revenue_conserved_witness:
  "df_example \<noteq> []
   \<and> float_exact 0 (map total_revenue df_example)
   \<and> sum_list (map m_total_revenue (calculate_sku_metrics df_example)) = 130
   \<and> sum_list (map total_revenue (filter has_key df_example)) = 130"
proof -
  have ne: "df_example \<noteq> []"
    by (simp add: df_example_def)
  have ex: "float_exact 0 (map total_revenue df_example)"
    by (simp add: float_exact_def on_grid_def df_example_def sale_def)
  have "sum_list (map total_revenue (filter has_key df_example)) = 130"
    by (simp add: df_example_def sale_def has_key_def group_key_def)
  with ne ex revenue_conserved [OF ne ex] show ?thesis
    by simp
qed

text \<open>
  C10, as stated, fails: \<open>'nunique'\<close> does not count a missing date. A frame whose only
  row has an empty date cell gives a row with \<open>days_with_sales = 0\<close>, and line 146
  divides 3 by 0, which is an infinity.
\<close>

theorem days_with_sales_zero_counterexample:
  "df_no_date \<noteq> []
   \<and> map days_with_sales (calculate_sku_metrics df_no_date) = [0]
   \<and> map avg_daily_quantity (calculate_sku_metrics df_no_date) = [PosInf]"
proof (intro conjI)
  show "df_no_date \<noteq> []"
    by (simp add: df_no_date_def)
  show "map days_with_sales (calculate_sku_metrics df_no_date) = [0]"
    by code_simp
  show "map avg_daily_quantity (calculate_sku_metrics df_no_date) = [PosInf]"
    by code_simp
qed

text \<open>
  C10, amended. An output row has \<open>days_with_sales \<ge> 1\<close> exactly when its group holds a
  row whose date is present, and then \<open>avg_daily_quantity\<close> is a finite quotient: line
  146 does not divide by zero for it. In particular, when no row of the frame lacks its
  date, every output row has \<open>days_with_sales \<ge> 1\<close>.
\<close>

theorem days_with_sales_positive:
  "(\<forall>m\<in>set (calculate_sku_metrics df).
       (1 \<le> days_with_sales m
          \<longleftrightarrow> (\<exists>r\<in>set df. group_key r = Some (metrics_key m) \<and> date r \<noteq> None))
       \<and> (1 \<le> days_with_sales m \<longrightarrow> is_finite (avg_daily_quantity m)))
   \<and> ((\<forall>r\<in>set df. date r \<noteq> None)
        \<longrightarrow> (\<forall>m\<in>set (calculate_sku_metrics df). 1 \<le> days_with_sales m))"
proof (intro conjI ballI impI)
  fix m assume m: "m \<in> set (calculate_sku_metrics df)"
  show "1 \<le> days_with_sales m
          \<longleftrightarrow> (\<exists>r\<in>set df. group_key r = Some (metrics_key m) \<and> date r \<noteq> None)"
    using m by (rule days_with_sales_pos_iff)
  assume "1 \<le> days_with_sales m"
  then show "is_finite (avg_daily_quantity m)"
    by (simp add: avg_daily_quantity_eq [OF m] truediv_def is_finite_def)
next
  fix m assume dated: "\<forall>r\<in>set df. date r \<noteq> None" and m: "m \<in> set (calculate_sku_metrics df)"
  from m have "metrics_key m \<in> set (map metrics_key (calculate_sku_metrics df))"
    by simp
  then have "metrics_key m \<in> set (keys_present df)"
    by (simp only: keys_calculate_sku_metrics set_sort)
  then obtain r where "r \<in> set df" "group_key r = Some (metrics_key m)"
    by (auto simp: set_keys_present)
  with dated have "\<exists>r\<in>set df. group_key r = Some (metrics_key m) \<and> date r \<noteq> None"
    by blast
  then show "1 \<le> days_with_sales m"
    by (simp only: days_with_sales_pos_iff [OF m])
qed

text \<open>
  On sales of A on two days and of B on one day and on a row without date: A has two
  days with sales, B has one, and both quotients are finite.
\<close>

theorem days_with_sales_positive_witness:
  "map days_with_sales (calculate_sku_metrics df_two_days) = [2, 1]
   \<and> list_all (\<lambda>m. 1 \<le> days_with_sales m) (calculate_sku_metrics df_two_days)
   \<and> list_all (\<lambda>m. is_finite (avg_daily_quantity m)) (calculate_sku_metrics df_two_days)"
proof -
  have d: "map days_with_sales (calculate_sku_metrics df_two_days) = [2, 1]"
    by code_simp
  then have "list_all (\<lambda>d. 1 \<le> d) (map days_with_sales (calculate_sku_metrics df_two_days))"
    by simp
  then have p: "list_all (\<lambda>m. 1 \<le> days_with_sales m) (calculate_sku_metrics df_two_days)"
    by (simp add: list_all_iff)
  with days_with_sales_positive [of df_two_days]
  have "list_all (\<lambda>m. is_finite (avg_daily_quantity m)) (calculate_sku_metrics df_two_days)"
    by (simp add: list_all_iff)
  with d p show ?thesis
    by simp
qed

text \<open>
  C3, as stated, fails in two ways: a SKU sold under two product names gets two output
  rows, and a SKU whose only row has an empty category cell gets none.
\<close>

theorem one_row_per_sku_counterexample:
  "map sku df_renamed = [Some ''A'', Some ''A'']
   \<and> map m_sku (calculate_sku_metrics df_renamed) = [''A'', ''A'']
   \<and> map sku df_no_category = [Some ''A'', Some ''B'']
   \<and> map m_sku (calculate_sku_metrics df_no_category) = [''A'']"
proof (intro conjI)
  show "map sku df_renamed = [Some ''A'', Some ''A'']"
    by (simp add: df_renamed_def sale_def)
  show "map m_sku (calculate_sku_metrics df_renamed) = [''A'', ''A'']"
    by code_simp
  show "map sku df_no_category = [Some ''A'', Some ''B'']"
    by (simp add: df_no_category_def sale_def)
  show "map m_sku (calculate_sku_metrics df_no_category) = [''A'']"
    by code_simp
qed

text \<open>
  C3, amended. The rows with a missing \<open>sku\<close>, \<open>product_name\<close> or \<open>category\<close> cell have no
  part in the result. When the remaining rows with the same \<open>sku\<close> agree on
  \<open>product_name\<close> and \<open>category\<close>, the aggregation produces exactly one row for each
  distinct \<open>sku\<close> among them.
\<close>

theorem one_row_per_present_sku:
  "calculate_sku_metrics df = calculate_sku_metrics (filter has_key df)
   \<and> (key_stable df
        \<longrightarrow> distinct (map m_sku (calculate_sku_metrics df))
            \<and> set (map m_sku (calculate_sku_metrics df)) = set (skus_present df))"
proof (intro conjI impI)
  show "calculate_sku_metrics df = calculate_sku_metrics (filter has_key df)"
    by (simp only: calculate_sku_metrics_has_key)
  have fst_key: "map m_sku ms = map fst (map metrics_key ms)" for ms
    by (simp add: metrics_key_def)
  show "set (map m_sku (calculate_sku_metrics df)) = set (skus_present df)"
    unfolding fst_key keys_calculate_sku_metrics
    by (simp add: skus_present_def)
  assume "key_stable df"
  then have "inj_on fst (set (sort (keys_present df)))"
    by (auto simp: key_stable_def intro!: inj_onI)
  moreover have "distinct (sort (keys_present df))"
    by (simp add: keys_present_def)
  ultimately show "distinct (map m_sku (calculate_sku_metrics df))"
    unfolding fst_key keys_calculate_sku_metrics
    by (simp only: distinct_map simp_thms)
qed

theorem one_row_per_present_sku_witness:
  "key_stable df_example
   \<and> skus_present df_example = [''A'', ''B'']
   \<and> map m_sku (calculate_sku_metrics df_example) = [''A'', ''B'']
   \<and> distinct (map m_sku (calculate_sku_metrics df_example))
   \<and> set (map m_sku (calculate_sku_metrics df_example)) = set (skus_present df_example)"
proof -
  have s: "key_stable df_example"
    by code_simp
  have p: "skus_present df_example = [''A'', ''B'']"
    by code_simp
  have "map m_sku (calculate_sku_metrics df_example) = [''A'', ''B'']"
    by code_simp
  with s p one_row_per_present_sku [of df_example] show ?thesis
    by blast
qed

text \<open>
  C4. The claim is that a group whose \<open>total_quantity\<close> is 0 gets the average order value
  0. Line 147 divides without a guard: for a file whose only row has the quantity 0,
  the quantity and the revenue of the group are both 0 and the result is NaN, while
  the guarded division of line 173 gives 0 on the same rows.
\<close>

theorem avg_order_value_zero_quantity:
  "map total_quantity (calculate_sku_metrics df_zero) = [0]
   \<and> map avg_order_value (calculate_sku_metrics df_zero) = [NaN]
   \<and> overall_avg_order_value df_zero = Fin 0"
  by code_simp

text \<open>
  The same for every row of every frame: with \<open>total_quantity = 0\<close> the average order
  value is NaN or an infinity, never a number.
\<close>

lemma zero_quantity_never_finite:
  assumes "m \<in> set (calculate_sku_metrics df)" and "total_quantity m = 0"
  shows "avg_order_value m \<in> {NaN, PosInf, NegInf}"
  using assms(2) by (simp add: avg_order_value_eq [OF assms(1)] truediv_def)

section \<open>Properties of the ranking\<close>

lemma fkey_le_iff: "a \<noteq> NaN \<Longrightarrow> b \<noteq> NaN \<Longrightarrow> fkey a \<le> fkey b \<longleftrightarrow> fle a b"
  by (cases a; cases b) simp_all

lemma fkey_eq_iff: "fkey a = fkey b \<longleftrightarrow> a = b"
  by (cases a; cases b) simp_all


lemma sorted_desc_sort_key:
  assumes "\<forall>m\<in>set xs. col m \<noteq> NaN"
  shows "sorted_wrt (\<lambda>a b. fle (col b) (col a)) (rev (sort_key (\<lambda>m. fkey (col m)) xs))"
proof -
  have "sorted (map (\<lambda>m. fkey (col m)) (sort_key (\<lambda>m. fkey (col m)) xs))"
    by (rule sorted_sort_key)
  then have "sorted_wrt (\<lambda>a b. fkey (col a) \<le> fkey (col b)) (sort_key (\<lambda>m. fkey (col m)) xs)"
    by (simp add: sorted_wrt_map)
  then have "sorted_wrt (\<lambda>a b. fle (col a) (col b)) (sort_key (\<lambda>m. fkey (col m)) xs)"
    by (rule sorted_wrt_mono_rel [rotated]) (use assms in \<open>simp add: fkey_le_iff\<close>)
  then show ?thesis
    by (simp add: sorted_wrt_rev)
qed

text \<open>
  The sorted frame is a descending run of the rows with a value, followed by the rows
  without, whatever order the library gives to equal values.
\<close>

lemma set_tie_order: "mset (tie_order xs) = mset xs \<Longrightarrow> set (tie_order xs) = set xs"
  by (rule mset_eq_setD)

lemma length_tie_order: "mset (tie_order xs) = mset xs \<Longrightarrow> length (tie_order xs) = length xs"
  by (rule mset_eq_length)

lemma sort_values_desc_parts:
  assumes "\<forall>xs. mset (tie_order xs) = mset xs"
  obtains S N where "sort_values_desc tie_order col ms = S @ N"
    and "sorted_wrt (\<lambda>a b. fle (col b) (col a)) S"
    and "\<forall>m\<in>set S. \<not> isna (col m)" and "\<forall>m\<in>set N. isna (col m)"
proof
  let ?nn = "tie_order (filter (\<lambda>m. \<not> isna (col m)) ms)"
  let ?S = "rev (sort_key (\<lambda>m. fkey (col m)) (rev ?nn))"
  let ?N = "filter (\<lambda>m. isna (col m)) ms"
  have s: "set ?nn = set (filter (\<lambda>m. \<not> isna (col m)) ms)"
    using assms by (simp add: set_tie_order)
  show "sort_values_desc tie_order col ms = ?S @ ?N"
    by (simp add: sort_values_desc_def)
  have nn: "\<forall>m\<in>set (rev ?nn). col m \<noteq> NaN"
    using s by (simp add: isna_def)
  then show "sorted_wrt (\<lambda>a b. fle (col b) (col a)) ?S"
    by (rule sorted_desc_sort_key)
  show "\<forall>m\<in>set ?S. \<not> isna (col m)"
    using s by simp
  show "\<forall>m\<in>set ?N. isna (col m)"
    by simp
qed

lemma length_sort_values_desc:
  assumes "\<forall>xs. mset (tie_order xs) = mset xs"
  shows "length (sort_values_desc tie_order col ms) = length ms"
proof -
  have "length (filter (\<lambda>m. \<not> isna (col m)) ms) + length (filter (\<lambda>m. isna (col m)) ms)
          = length ms"
    by (induction ms) simp_all
  then show ?thesis
    using assms by (simp add: sort_values_desc_def length_tie_order)
qed

lemma set_sort_values_desc:
  assumes "\<forall>xs. mset (tie_order xs) = mset xs"
  shows "set (sort_values_desc tie_order col ms) = set ms"
  using assms by (auto simp: sort_values_desc_def set_tie_order)

lemma head_is_take: "\<exists>j. head n xs = take j xs"
  by (auto simp: head_def)


lemma length_head: "0 \<le> n \<Longrightarrow> length (head n xs) = min (nat n) (length xs)"
  by (simp add: head_def)

lemma head_all: "int (length xs) \<le> n \<Longrightarrow> head n xs = xs"
  by (simp add: head_def)

lemma filter_take_parts:
  assumes "\<forall>s\<in>set S. P s" and "\<forall>n\<in>set N. \<not> P n"
  shows "filter P (take j (S @ N)) = take j S"
    and "filter (\<lambda>x. \<not> P x) (take j (S @ N)) = take (j - length S) N"
proof -
  have a: "filter P (take j S) = take j S"
    using assms(1) by (meson filter_True in_set_takeD)
  have b: "filter P (take (j - length S) N) = []"
    using assms(2) by (meson filter_False in_set_takeD)
  have c: "filter (\<lambda>x. \<not> P x) (take j S) = []"
    using assms(1) by (meson filter_False in_set_takeD)
  have d: "filter (\<lambda>x. \<not> P x) (take (j - length S) N) = take (j - length S) N"
    using assms(2) by (meson filter_True in_set_takeD)
  show "filter P (take j (S @ N)) = take j S"
    by (simp add: a b)
  show "filter (\<lambda>x. \<not> P x) (take j (S @ N)) = take (j - length S) N"
    by (simp add: c d)
qed

lemma length_skus_present: "key_stable df \<Longrightarrow> length (skus_present df) = length (keys_present df)"
proof -
  assume "key_stable df"
  then have "inj_on fst (set (keys_present df))"
    by (auto simp: key_stable_def intro!: inj_onI)
  moreover have "distinct (keys_present df)"
    by (simp add: keys_present_def)
  ultimately have "distinct (map fst (keys_present df))"
    by (simp only: distinct_map simp_thms)
  then show ?thesis
    by (simp add: skus_present_def distinct_remdups_id)
qed

lemma metric_value_sum_metrics:
  "metric = ''Total Revenue'' \<or> metric = ''Quantity Sold'' \<Longrightarrow> has_value metric m"
  by (auto simp: metric_value_def has_value_def isna_def)

text \<open>
  C2, as stated, fails on the length and on the order. With one SKU sold under two
  product names, the five best rows are two; and when a quantity of zero has made an
  average order value NaN, the row of that SKU is in the table but is not below the
  others in the order of the numbers.
\<close>

theorem top_skus_length_counterexample:
  "length (top_skus id ''Total Revenue'' 5 df_renamed) = 2
   \<and> min 5 (card (sku ` set df_renamed)) = 1
   \<and> map m_sku (top_skus id ''Average Order Value'' 5 df_with_zero) = [''B'', ''A'', ''Z'']
   \<and> \<not> sorted_wrt (desc_by ''Average Order Value'')
         (top_skus id ''Average Order Value'' 5 df_with_zero)"
proof (intro conjI)
  show "length (top_skus id ''Total Revenue'' 5 df_renamed) = 2"
    by code_simp
  show "min 5 (card (sku ` set df_renamed)) = 1"
    by (simp add: df_renamed_def sale_def)
  show "map m_sku (top_skus id ''Average Order Value'' 5 df_with_zero) = [''B'', ''A'', ''Z'']"
    by code_simp
  show "\<not> sorted_wrt (desc_by ''Average Order Value'')
          (top_skus id ''Average Order Value'' 5 df_with_zero)"
    by code_simp
qed

text \<open>
  C2, amended. For every frame, every \<open>N \<ge> 1\<close>, every metric and every order the
  library's sort gives to equal values: the rows of the ranked table on which the metric
  has a value are in descending order of it and come before the rows on which it is NaN
  (there is none for the total revenue and the quantity sold, where the whole table is
  in descending order). When the rows with the same \<open>sku\<close> agree on \<open>product_name\<close> and
  \<open>category\<close>, the table has \<open>min(N, number of distinct SKUs)\<close> rows, the SKUs counted
  among the input rows whose three key cells are present; and if there are at most \<open>N\<close>
  of them, every row of the aggregation is returned.
\<close>

theorem top_skus_sorted_length:
  assumes "1 \<le> top_n" and "\<forall>xs. mset (tie_order xs) = mset xs"
  shows "sorted_wrt (desc_by metric)
           (filter (has_value metric) (top_skus tie_order metric top_n df))
       \<and> top_skus tie_order metric top_n df
           = filter (has_value metric) (top_skus tie_order metric top_n df)
             @ filter (\<lambda>m. \<not> has_value metric m) (top_skus tie_order metric top_n df)
       \<and> (metric = ''Total Revenue'' \<or> metric = ''Quantity Sold''
            \<longrightarrow> sorted_wrt (desc_by metric) (top_skus tie_order metric top_n df))
       \<and> (key_stable df
            \<longrightarrow> length (top_skus tie_order metric top_n df)
                  = min (nat top_n) (length (skus_present df))
                \<and> (int (length (skus_present df)) \<le> top_n
                     \<longrightarrow> set (top_skus tie_order metric top_n df)
                           = set (calculate_sku_metrics df)))"
proof -
  let ?out = "top_skus tie_order metric top_n df"
  let ?ms = "calculate_sku_metrics df"
  obtain S N where parts: "sort_values_desc tie_order (metric_value metric) ?ms = S @ N"
    and sorted: "sorted_wrt (\<lambda>a b. fle (metric_value metric b) (metric_value metric a)) S"
    and S: "\<forall>m\<in>set S. \<not> isna (metric_value metric m)"
    and N: "\<forall>m\<in>set N. isna (metric_value metric m)"
    using assms(2) by (rule sort_values_desc_parts)
  obtain j where j: "?out = take j (S @ N)"
    unfolding top_skus_def sku_metrics_sorted_def parts using head_is_take by blast
  have S': "\<forall>m\<in>set S. has_value metric m" and N': "\<forall>m\<in>set N. \<not> has_value metric m"
    using S N by (simp_all add: has_value_def)
  have f1: "filter (has_value metric) ?out = take j S"
    unfolding j using S' N' by (rule filter_take_parts(1))
  have f2: "filter (\<lambda>m. \<not> has_value metric m) ?out = take (j - length S) N"
    unfolding j using S' N' by (rule filter_take_parts(2))
  have desc: "sorted_wrt (desc_by metric) S"
    using sorted by (simp add: desc_by_def [abs_def])
  have c1: "sorted_wrt (desc_by metric) (filter (has_value metric) ?out)"
    unfolding f1 using desc by (rule sorted_wrt_take)
  have c2: "?out = filter (has_value metric) ?out @ filter (\<lambda>m. \<not> has_value metric m) ?out"
    unfolding f1 f2 by (simp add: j)
  have c3: "sorted_wrt (desc_by metric) ?out"
    if "metric = ''Total Revenue'' \<or> metric = ''Quantity Sold''"
  proof -
    have "filter (has_value metric) ?out = ?out"
      using that by (simp add: metric_value_sum_metrics)
    with c1 show ?thesis
      by simp
  qed
  have len_sorted: "length (sku_metrics_sorted tie_order metric ?ms) = length (keys_present df)"
    using assms(2)
    by (simp add: sku_metrics_sorted_def length_sort_values_desc length_calculate_sku_metrics)
  have c4: "length ?out = min (nat top_n) (length (skus_present df))" if "key_stable df"
    using assms(1) that
    by (simp add: top_skus_def length_head len_sorted length_skus_present)
  have c5: "set ?out = set ?ms"
    if "key_stable df" and "int (length (skus_present df)) \<le> top_n"
  proof -
    have "int (length (sku_metrics_sorted tie_order metric ?ms)) \<le> top_n"
      using that by (simp add: len_sorted length_skus_present)
    then have "?out = sku_metrics_sorted tie_order metric ?ms"
      unfolding top_skus_def by (rule head_all)
    then show ?thesis
      using assms(2) by (simp add: sku_metrics_sorted_def set_sort_values_desc)
  qed
  from c1 c2 c3 c4 c5 show ?thesis
    by blast
qed

text \<open>
  On the example followed by a row with quantity zero, ranked by average order value with
  \<open>N = 5\<close> and a library that reverses equal values: B (100 a unit) comes before A (2 a
  unit), and Z, whose value is NaN, is last.
\<close>

theorem top_skus_sorted_length_witness:
  "(1::int) \<le> 5
   \<and> key_stable df_with_zero
   \<and> length (skus_present df_with_zero) = 3
   \<and> map m_sku (top_skus rev ''Average Order Value'' 5 df_with_zero) = [''B'', ''A'', ''Z'']
   \<and> sorted_wrt (desc_by ''Average Order Value'')
        (filter (has_value ''Average Order Value'')
           (top_skus rev ''Average Order Value'' 5 df_with_zero))
   \<and> length (top_skus rev ''Average Order Value'' 5 df_with_zero) = 3
   \<and> set (top_skus rev ''Average Order Value'' 5 df_with_zero)
       = set (calculate_sku_metrics df_with_zero)"
proof -
  have n: "(1::int) \<le> 5"
    by simp
  have p: "\<forall>xs :: sku_metrics list. mset (rev xs) = mset xs"
    by simp
  have s: "key_stable df_with_zero"
    by code_simp
  have l: "length (skus_present df_with_zero) = 3"
    by code_simp
  have o: "map m_sku (top_skus rev ''Average Order Value'' 5 df_with_zero) = [''B'', ''A'', ''Z'']"
    by code_simp
  from top_skus_sorted_length [OF n p, of "''Average Order Value''" df_with_zero] s l o
  show ?thesis
    by simp
qed







section \<open>Properties of the upload\<close>

lemma map_of_replace:
  "map_of (map (\<lambda>(n, w). (n, if n = c then v else w)) df) k
     = map_option (\<lambda>w. if k = c then v else w) (map_of df k)"
  by (induction df) (simp_all split: prod.splits)

lemma map_of_setitem: "map_of (setitem df c v) = (map_of df)(c \<mapsto> v)"
proof (rule ext)
  fix k
  show "map_of (setitem df c v) k = ((map_of df)(c \<mapsto> v)) k"
  proof (cases "c \<in> set (map fst df)")
    case True
    then obtain w where "map_of df c = Some w"
      by (metis domD dom_map_of_conv_image_fst list.set_map)
    with True show ?thesis
      by (cases "k = c") (simp_all add: setitem_def map_of_replace option.map_ident)
  next
    case False
    then have "map_of df c = None"
      by (simp add: map_of_eq_None_iff)
    with False show ?thesis
      by (auto simp: setitem_def map_add_def split: option.splits)
  qed
qed

lemma getitem_missing:
  assumes "c \<notin> fst ` set df"
  shows "getitem df c = Inl (KeyError c)"
proof -
  have "map_of df c = None"
    using assms by (simp add: map_of_eq_None_iff)
  then show ?thesis
    by (simp add: getitem_def)
qed

lemma getitem_present:
  assumes "c \<in> fst ` set df"
  shows "\<exists>v. getitem df c = Inr v"
proof -
  from assms obtain v where "map_of df c = Some v"
    by (metis domD dom_map_of_conv_image_fst)
  then show ?thesis
    by (simp add: getitem_def)
qed

lemma getitem_setitem_other: "c' \<noteq> c \<Longrightarrow> getitem (setitem df c v) c' = getitem df c'"
  by (simp add: getitem_def map_of_setitem)

lemma upload_fails:
  assumes "''unit_price'' \<notin> fst ` set df"
  shows "\<exists>e. uploaded_file_handling to_datetime mul df = Inl e"
  using getitem_missing [OF assms]
  by (simp add: uploaded_file_handling_def getitem_setitem_other Let_def split: sum.splits)

lemma upload_key_error:
  assumes "''unit_price'' \<notin> fst ` set df"
    and "getitem df ''date'' = Inr d" and "to_datetime d = Inr d'"
    and "''quantity_sold'' \<in> fst ` set df"
  shows "uploaded_file_handling to_datetime mul df = Inl (KeyError ''unit_price'')"
proof -
  from assms(4) obtain q where "getitem df ''quantity_sold'' = Inr q"
    using getitem_present by blast
  with assms(2,3) getitem_missing [OF assms(1)] show ?thesis
    by (simp add: uploaded_file_handling_def getitem_setitem_other Let_def)
qed

text \<open>
  C6, as stated, fails: no check of the columns precedes their use, and the first column
  that is read and absent is the one the error names. A file without \<open>unit_price\<close> and
  without \<open>date\<close> stops at line 101 with a \<open>KeyError\<close> for \<open>date\<close>, which does not name
  \<open>unit_price\<close>.
\<close>

theorem upload_error_counterexample:
  "''unit_price'' \<notin> fst ` set csv_no_date
   \<and> uploaded_file_handling to_datetime_ok mul_ok csv_no_date = Inl (KeyError ''date'')
   \<and> \<not> names_column (KeyError ''date'') ''unit_price''"
  by (simp add: csv_no_date_def uploaded_file_handling_def getitem_def names_column_def)

text \<open>
  C6, amended. For every uploaded file without the column \<open>unit_price\<close>, the handling of
  the upload ends in an error and returns no frame, so nothing of the dashboard is
  computed from the file. When the column \<open>date\<close> is present and converts, and the column
  \<open>quantity_sold\<close> is present, the error is the \<open>KeyError\<close> of the lookup, which names
  \<open>unit_price\<close>.
\<close>

theorem upload_missing_unit_price:
  assumes "''unit_price'' \<notin> fst ` set df"
  shows "(\<exists>e. uploaded_file_handling to_datetime mul df = Inl e)
       \<and> (\<forall>d d'. getitem df ''date'' = Inr d \<and> to_datetime d = Inr d'
                   \<and> ''quantity_sold'' \<in> fst ` set df
            \<longrightarrow> uploaded_file_handling to_datetime mul df = Inl (KeyError ''unit_price'')
                \<and> names_column (KeyError ''unit_price'') ''unit_price'')"
  using upload_fails [OF assms] upload_key_error [OF assms]
  by (simp add: names_column_def)

theorem upload_missing_unit_price_witness:
  "''unit_price'' \<notin> fst ` set csv_no_price
   \<and> getitem csv_no_price ''date'' = Inr [''2024-10-04'']
   \<and> to_datetime_ok [''2024-10-04''] = Inr [''2024-10-04'']
   \<and> ''quantity_sold'' \<in> fst ` set csv_no_price
   \<and> uploaded_file_handling to_datetime_ok mul_ok csv_no_price = Inl (KeyError ''unit_price'')"
proof -
  have h: "''unit_price'' \<notin> fst ` set csv_no_price"
    by (simp add: csv_no_price_def)
  have d: "getitem csv_no_price ''date'' = Inr [''2024-10-04'']"
    by (simp add: csv_no_price_def getitem_def)
  have t: "to_datetime_ok [''2024-10-04''] = Inr [''2024-10-04'']"
    by (simp add: to_datetime_ok_def)
  have q: "''quantity_sold'' \<in> fst ` set csv_no_price"
    by (simp add: csv_no_price_def)
  from upload_missing_unit_price [OF h, of to_datetime_ok mul_ok] d t q
  have "uploaded_file_handling to_datetime_ok mul_ok csv_no_price = Inl (KeyError ''unit_price'')"
    by blast
  with h d t q show ?thesis
    by blast
qed

end
